theory Spec2Isabelle
  imports Complex_Main
begin

section \<open>The massing viewer: data model\<close>

text \<open>
  The viewer is a React/Three.js front end. Its components are pure functions from
  a JSON payload to a tree of scene elements, plus a handful of state cells in
  \<^verbatim>\<open>App\<close>. The model below keeps the components' names and the order of their
  checks. JavaScript numbers are taken as exact rationals; a field that the JSON
  may omit is an \<open>option\<close>, with \<open>None\<close> for \<^verbatim>\<open>undefined\<close>/\<^verbatim>\<open>null\<close>.
\<close>

type_synonym point2 = "rat \<times> rat"
type_synonym vec3 = "rat \<times> rat \<times> rat"

record Lot =
  polygon :: "point2 list option"
  frontage_ft :: "rat option"
  depth_ft :: "rat option"

record SkyExposure =
  start_height :: "rat option"
  slope :: "rat option"

record Envelope =
  max_height_ft :: "rat option"
  base_height_max_ft :: "rat option"
  setback_line :: "point2 list option"
  sky_exposure_plane :: "SkyExposure option"

record Floor =
  floor_num :: int
  use :: string
  elevation_ft :: rat
  height_ft :: rat
  footprint :: "point2 list option"

record Bulkhead =
  bh_footprint :: "point2 list option"
  bh_height_ft :: rat
  bh_elevation_ft :: rat

record Scenario =
  name :: string
  floors :: "Floor list option"
  bulkhead :: "Bulkhead option"
  zoning_envelope :: "Envelope option"

subsection \<open>Scene elements\<close>

text \<open>
  \<open>PlaneMesh w d pos colour opacity\<close> is a horizontal \<^verbatim>\<open>PlaneGeometry(w, d)\<close> placed
  at \<open>pos\<close>; \<open>Line pts colour width dashed\<close> is a drei \<^verbatim>\<open>Line\<close>; \<open>QuadMesh\<close> is the
  indexed \<^verbatim>\<open>BufferGeometry\<close> of the sky exposure plane.
\<close>

datatype plane_mesh =
  PlaneMesh (plane_w: rat) (plane_d: rat) (plane_pos: vec3) (plane_color: string) (plane_opacity: rat)

datatype line =
  Line (line_points: "vec3 list") (line_color: string) (line_width: rat) (line_dashed: bool)

datatype quad_mesh =
  QuadMesh (quad_vertices: "vec3 list") (quad_indices: "nat list") (quad_color: string) (quad_opacity: rat)

record EnvelopeGroup =
  max_height_plane :: plane_mesh
  max_height_border :: line
  base_height_overlay :: "(plane_mesh \<times> line) option"
  vertical_edges :: "line list"
  setback_lines :: "(line \<times> line \<times> line) option"
  sky_plane :: "quad_mesh option"

section \<open>Zoning envelope projector (ZoningEnvelope.jsx)\<close>

text \<open>
  \<^verbatim>\<open>x || dflt\<close> on a numeric field: \<^verbatim>\<open>undefined\<close>, \<^verbatim>\<open>null\<close> and \<open>0\<close> are falsy, every
  other number (negative ones too) is kept.
\<close>

definition num_or :: "rat option \<Rightarrow> rat \<Rightarrow> rat" where
  "num_or x dflt = (case x of None \<Rightarrow> dflt | Some v \<Rightarrow> if v = 0 then dflt else v)"

text \<open>
  The component also computes a local \<^verbatim>\<open>maxH\<close> that it never reads; it is left out.
\<close>

definition SkyExposurePlane :: "SkyExposure \<Rightarrow> Lot \<Rightarrow> quad_mesh" where
  "SkyExposurePlane sep lot =
     (let w = num_or (frontage_ft lot) 50;
          d = num_or (depth_ft lot) 100;
          startH = num_or (start_height sep) 60;
          slopeV = num_or (slope sep) 2.7
      in QuadMesh
           [(0, startH, 0),
            (w, startH, 0),
            (w, min (startH + d * slopeV) 300, d),
            (0, min (startH + d * slopeV) 300, d)]
           [0, 1, 2, 0, 2, 3] ''#f39c12'' 0.1)"

definition ZoningEnvelope :: "Envelope \<Rightarrow> Lot \<Rightarrow> EnvelopeGroup" where
  "ZoningEnvelope envelope lot =
     (let w = num_or (frontage_ft lot) 50;
          d = num_or (depth_ft lot) 100;
          maxH = num_or (max_height_ft envelope) 100;
          baseH = num_or (base_height_max_ft envelope) 60;
          corners = [(0, 0), (w, 0), (w, d), (0, d)]
      in \<lparr> max_height_plane = PlaneMesh (w + 4) (d + 4) (w / 2, maxH, d / 2) ''#4A90D9'' 0.08,
           max_height_border =
             Line [(0, maxH, 0), (w, maxH, 0), (w, maxH, d), (0, maxH, d), (0, maxH, 0)]
               ''#4A90D9'' 1.5 True,
           base_height_overlay =
             (if baseH > 0 \<and> baseH < maxH
              then Some (PlaneMesh (w + 4) (d + 4) (w / 2, baseH, d / 2) ''#6BBF6B'' 0.06,
                         Line [(0, baseH, 0), (w, baseH, 0), (w, baseH, d), (0, baseH, d), (0, baseH, 0)]
                           ''#6BBF6B'' 1 True)
              else None),
           vertical_edges =
             map (\<lambda>(cx, cz). Line [(cx, 0, cz), (cx, maxH, cz)] ''#4A90D9'' 0.5 False) corners,
           setback_lines =
             (case setback_line envelope of
                None \<Rightarrow> None
              | Some sl \<Rightarrow>
                  if length sl \<ge> 2
                  then Some (Line (map (\<lambda>(x, z). (x, 0.2, z)) sl) ''#e74c3c'' 1.5 True,
                             Line (map (\<lambda>(x, z). (x, baseH, z)) sl) ''#e74c3c'' 1.5 True,
                             Line [(fst (sl ! 0), 0.2, snd (sl ! 0)),
                                   (fst (sl ! 0), baseH, snd (sl ! 0))] ''#e74c3c'' 0.5 False)
                  else None),
           sky_plane =
             (case sky_exposure_plane envelope of
                None \<Rightarrow> None
              | Some sep \<Rightarrow> Some (SkyExposurePlane sep lot)) \<rparr>)"

section \<open>Massing builder (BuildingMesh.jsx)\<close>

subsection \<open>The colour table and JavaScript property reads\<close>

text \<open>
  \<^verbatim>\<open>USE_COLORS\<close> is an object literal and \<^verbatim>\<open>USE_COLORS[floor.use]\<close> is an ordinary
  property read: the object's own properties are consulted first and then those it
  inherits from \<^verbatim>\<open>Object.prototype\<close>. The inherited members are built-in functions
  (and the \<^verbatim>\<open>__proto__\<close> accessor, which yields the prototype object); all of them
  are truthy. A name found in neither place reads as \<^verbatim>\<open>undefined\<close>.
\<close>

datatype js_value = JsString string | JsBuiltin string | JsUndefined

definition js_truthy :: "js_value \<Rightarrow> bool" where
  "js_truthy v = (case v of JsString s \<Rightarrow> s \<noteq> [] | JsBuiltin _ \<Rightarrow> True | JsUndefined \<Rightarrow> False)"

definition js_or :: "js_value \<Rightarrow> js_value \<Rightarrow> js_value" where
  "js_or a b = (if js_truthy a then a else b)"

definition Object_prototype :: "(string \<times> js_value) list" where
  "Object_prototype =
     [(''constructor'', JsBuiltin ''Object''),
      (''hasOwnProperty'', JsBuiltin ''Object.prototype.hasOwnProperty''),
      (''isPrototypeOf'', JsBuiltin ''Object.prototype.isPrototypeOf''),
      (''propertyIsEnumerable'', JsBuiltin ''Object.prototype.propertyIsEnumerable''),
      (''toLocaleString'', JsBuiltin ''Object.prototype.toLocaleString''),
      (''toString'', JsBuiltin ''Object.prototype.toString''),
      (''valueOf'', JsBuiltin ''Object.prototype.valueOf''),
      (''__defineGetter__'', JsBuiltin ''Object.prototype.__defineGetter__''),
      (''__defineSetter__'', JsBuiltin ''Object.prototype.__defineSetter__''),
      (''__lookupGetter__'', JsBuiltin ''Object.prototype.__lookupGetter__''),
      (''__lookupSetter__'', JsBuiltin ''Object.prototype.__lookupSetter__''),
      (''__proto__'', JsBuiltin ''Object.prototype'')]"

definition js_get :: "(string \<times> js_value) list \<Rightarrow> string \<Rightarrow> js_value" where
  "js_get own key =
     (case map_of own key of
        Some v \<Rightarrow> v
      | None \<Rightarrow> (case map_of Object_prototype key of Some v \<Rightarrow> v | None \<Rightarrow> JsUndefined))"

definition USE_COLORS :: "(string \<times> js_value) list" where
  "USE_COLORS =
     [(''commercial'', JsString ''#4A90D9''),
      (''residential'', JsString ''#F5E6CC''),
      (''community_facility'', JsString ''#6BBF6B''),
      (''parking'', JsString ''#999999''),
      (''mechanical'', JsString ''#777777''),
      (''cellar'', JsString ''#777777''),
      (''core'', JsString ''#555555'')]"

definition FLOOR_GAP :: rat where
  "FLOOR_GAP = 0.3"

subsection \<open>Floor and bulkhead solids\<close>

text \<open>
  A solid is the footprint extruded by \<open>solid_depth\<close>. \<^verbatim>\<open>ExtrudeGeometry\<close> extrudes
  from 0 to \<open>depth\<close> along its own z axis and \<^verbatim>\<open>rotateX(-Math.PI / 2)\<close> turns that axis
  into the scene's vertical y axis, so a solid placed at height \<open>y\<close> occupies the
  vertical interval from \<open>y\<close> to \<open>y + solid_depth\<close>. The wireframe child shares the
  same geometry and the optional text label carries no geometry; both are left out.
\<close>

record Solid =
  solid_shape :: "point2 list"
  solid_depth :: rat
  solid_color :: js_value
  solid_position :: vec3

definition vertical_extent :: "Solid \<Rightarrow> rat \<times> rat" where
  "vertical_extent s = (let y = fst (snd (solid_position s)) in (y, y + solid_depth s))"

definition baseColor :: "Floor \<Rightarrow> js_value" where
  "baseColor flr = js_or (js_get USE_COLORS (use flr)) (JsString ''#cccccc'')"

definition FloorMesh :: "Floor \<Rightarrow> Solid option" where
  "FloorMesh flr =
     (case footprint flr of
        None \<Rightarrow> None
      | Some poly \<Rightarrow>
          if length poly < 3 then None
          else Some \<lparr> solid_shape = poly,
                      solid_depth = height_ft flr - FLOOR_GAP,
                      solid_color = baseColor flr,
                      solid_position = (0, elevation_ft flr + FLOOR_GAP / 2, 0) \<rparr>)"

definition BulkheadMesh :: "Bulkhead \<Rightarrow> Solid option" where
  "BulkheadMesh bh =
     (case bh_footprint bh of
        None \<Rightarrow> None
      | Some poly \<Rightarrow>
          if length poly < 3 then None
          else Some \<lparr> solid_shape = poly,
                      solid_depth = bh_height_ft bh,
                      solid_color = JsString ''#888888'',
                      solid_position = (0, bh_elevation_ft bh, 0) \<rparr>)"

record BuildingGroup =
  floor_children :: "Solid option list"
  bulkhead_child :: "Solid option"

definition BuildingMesh :: "Scenario option \<Rightarrow> BuildingGroup option" where
  "BuildingMesh scenario =
     (case scenario of
        None \<Rightarrow> None
      | Some sc \<Rightarrow>
          (case floors sc of
             None \<Rightarrow> None
           | Some fs \<Rightarrow>
               Some \<lparr> floor_children = map FloorMesh fs,
                      bulkhead_child =
                        (case bulkhead sc of None \<Rightarrow> None | Some b \<Rightarrow> BulkheadMesh b) \<rparr>))"

section \<open>Lot boundary and fill (LotPlane.jsx)\<close>

definition lotBoundary :: "Lot \<Rightarrow> vec3 list" where
  "lotBoundary lot =
     (let poly = (case polygon lot of None \<Rightarrow> [] | Some p \<Rightarrow> p);
          w = num_or (frontage_ft lot) 50;
          d = num_or (depth_ft lot) 100
      in if length poly \<ge> 3
         then map (\<lambda>(x, z). (x, 0.15, z)) poly @ [(fst (poly ! 0), 0.15, snd (poly ! 0))]
         else [(0, 0.15, 0), (w, 0.15, 0), (w, 0.15, d), (0, 0.15, d), (0, 0.15, 0)])"

text \<open>The outline of the filled shape, before \<^verbatim>\<open>closePath\<close> and triangulation.\<close>

definition lotFillGeo :: "Lot \<Rightarrow> point2 list" where
  "lotFillGeo lot =
     (let poly = (case polygon lot of None \<Rightarrow> [] | Some p \<Rightarrow> p);
          w = num_or (frontage_ft lot) 50;
          d = num_or (depth_ft lot) 100
      in if length poly \<ge> 3 then poly
         else [(0, 0), (w, 0), (w, d), (0, d)])"

text \<open>
  The lot group always holds the fill mesh and the boundary line. Its street-edge
  lines and yard indicators do not depend on the polygon's size and are left out.
\<close>

record LotGroup =
  lot_fill :: "point2 list"
  lot_fill_position :: vec3
  lot_boundary_line :: line

definition LotPlane :: "Lot \<Rightarrow> LotGroup" where
  "LotPlane lot =
     \<lparr> lot_fill = lotFillGeo lot,
       lot_fill_position = (0, 0.05, 0),
       lot_boundary_line = Line (lotBoundary lot) ''#333'' 2 False \<rparr>"

section \<open>Interaction state (App.jsx, InfoPanel.jsx, ComparisonView.jsx)\<close>

record AppState =
  activeScenario :: nat
  selectedFloor :: "Floor option"
  hoveredFloor :: "Floor option"
  showEnvelope :: bool
  showLotBoundary :: bool
  showSetbacks :: bool
  showFloorLabels :: bool
  comparisonMode :: bool
  comparisonScenario :: nat

definition initial_state :: AppState where
  "initial_state =
     \<lparr> activeScenario = 0, selectedFloor = None, hoveredFloor = None,
       showEnvelope = False, showLotBoundary = True, showSetbacks = True,
       showFloorLabels = False, comparisonMode = False, comparisonScenario = 1 \<rparr>"

definition setSelectedFloor :: "Floor option \<Rightarrow> AppState \<Rightarrow> AppState" where
  "setSelectedFloor f s = s\<lparr>selectedFloor := f\<rparr>"

definition setHoveredFloor :: "Floor option \<Rightarrow> AppState \<Rightarrow> AppState" where
  "setHoveredFloor f s = s\<lparr>hoveredFloor := f\<rparr>"

subsection \<open>Callback wiring of a floor solid\<close>

text \<open>
  \<^verbatim>\<open>BuildingMesh\<close> wraps the callbacks it is given (which may be missing) for each
  floor; \<^verbatim>\<open>FloorMesh\<close> calls the wrapped callbacks from its pointer handlers and keeps
  a local hover flag of its own.
\<close>

definition BuildingMesh_onClick :: "(Floor option \<Rightarrow> 's \<Rightarrow> 's) option \<Rightarrow> Floor \<Rightarrow> 's \<Rightarrow> 's" where
  "BuildingMesh_onClick onFloorClick flr s =
     (case onFloorClick of None \<Rightarrow> s | Some cb \<Rightarrow> cb (Some flr) s)"

definition BuildingMesh_onHover :: "(Floor option \<Rightarrow> 's \<Rightarrow> 's) option \<Rightarrow> Floor \<Rightarrow> bool \<Rightarrow> 's \<Rightarrow> 's" where
  "BuildingMesh_onHover onFloorHover flr hovered s =
     (case onFloorHover of None \<Rightarrow> s | Some cb \<Rightarrow> cb (if hovered then Some flr else None) s)"

datatype pointer_event = Click | PointerEnter | PointerLeave

definition FloorMesh_localHover :: "pointer_event \<Rightarrow> bool \<Rightarrow> bool" where
  "FloorMesh_localHover ev localHover =
     (case ev of Click \<Rightarrow> localHover | PointerEnter \<Rightarrow> True | PointerLeave \<Rightarrow> False)"

definition FloorMesh_pointer :: "('s \<Rightarrow> 's) \<Rightarrow> (bool \<Rightarrow> 's \<Rightarrow> 's) \<Rightarrow> pointer_event \<Rightarrow> 's \<Rightarrow> 's" where
  "FloorMesh_pointer onClick onHover ev s =
     (case ev of Click \<Rightarrow> onClick s | PointerEnter \<Rightarrow> onHover True s | PointerLeave \<Rightarrow> onHover False s)"

subsection \<open>The two scene components and the callbacks they pass down\<close>

definition MassingScene_callbacks ::
  "(Floor option \<Rightarrow> AppState \<Rightarrow> AppState) option \<times> (Floor option \<Rightarrow> AppState \<Rightarrow> AppState) option" where
  "MassingScene_callbacks = (Some setSelectedFloor, Some setHoveredFloor)"

definition ComparisonView_callbacks ::
  "(Floor option \<Rightarrow> AppState \<Rightarrow> AppState) option \<times> (Floor option \<Rightarrow> AppState \<Rightarrow> AppState) option" where
  "ComparisonView_callbacks = (Some (\<lambda>_ s. s), Some (\<lambda>_ s. s))"

definition js_index :: "'a list \<Rightarrow> nat \<Rightarrow> 'a option" where
  "js_index xs i = (if i < length xs then Some (xs ! i) else None)"

definition ComparisonView_scA :: "Scenario list \<Rightarrow> nat \<Rightarrow> Scenario option" where
  "ComparisonView_scA scenarios scenarioA = js_index scenarios scenarioA"

definition ComparisonView_scB :: "Scenario list \<Rightarrow> nat \<Rightarrow> Scenario option" where
  "ComparisonView_scB scenarios scenarioB =
     (case js_index scenarios scenarioB of Some sc \<Rightarrow> Some sc | None \<Rightarrow> js_index scenarios 0)"

text \<open>The entries of the "Compare with" drop-down of the info panel.\<close>

definition comparison_options :: "Scenario list \<Rightarrow> nat \<Rightarrow> nat list" where
  "comparison_options scenarios active = filter (\<lambda>i. i \<noteq> active) [0..<length scenarios]"

subsection \<open>The scenario preselection effect of App\<close>

text \<open>
  Whenever \<^verbatim>\<open>massingData\<close> changes (the first load, and every later \<^verbatim>\<open>MASSING_DATA\<close>
  message from the parent window), an effect reads the \<^verbatim>\<open>scenario\<close> parameter of the
  page URL and, when some scenario's name contains it (compared in lower case), makes
  that scenario the active one with \<^verbatim>\<open>setActiveScenario(idx)\<close>. Lower-casing is modelled
  for the ASCII letters.
\<close>

definition lower_char :: "char \<Rightarrow> char" where
  "lower_char c =
     (case map_of (zip ''ABCDEFGHIJKLMNOPQRSTUVWXYZ'' ''abcdefghijklmnopqrstuvwxyz'') c of
        Some l \<Rightarrow> l
      | None \<Rightarrow> c)"

definition toLowerCase :: "string \<Rightarrow> string" where
  "toLowerCase str = map lower_char str"

fun startsWith :: "string \<Rightarrow> string \<Rightarrow> bool" where
  "startsWith _ [] = True"
| "startsWith [] (c # cs) = False"
| "startsWith (x # xs) (c # cs) = (x = c \<and> startsWith xs cs)"

fun str_includes :: "string \<Rightarrow> string \<Rightarrow> bool" where
  "str_includes [] needle = (needle = [])"
| "str_includes (x # xs) needle = (startsWith (x # xs) needle \<or> str_includes xs needle)"

text \<open>\<^verbatim>\<open>findIndex\<close> with \<open>None\<close> for the result \<open>-1\<close>.\<close>

fun findIndex :: "('a \<Rightarrow> bool) \<Rightarrow> 'a list \<Rightarrow> nat option" where
  "findIndex P [] = None"
| "findIndex P (x # xs) = (if P x then Some 0 else map_option Suc (findIndex P xs))"

definition preselect_effect :: "string option \<Rightarrow> Scenario list option \<Rightarrow> AppState \<Rightarrow> AppState" where
  "preselect_effect scenarioName scenarios s =
     (case scenarioName of
        None \<Rightarrow> s
      | Some q \<Rightarrow>
          if q = [] then s
          else (case scenarios of
                  None \<Rightarrow> s
                | Some scs \<Rightarrow>
                    (case findIndex (\<lambda>sc. str_includes (toLowerCase (name sc)) (toLowerCase q)) scs of
                       None \<Rightarrow> s
                     | Some idx \<Rightarrow> s\<lparr>activeScenario := idx\<rparr>)))"

subsection \<open>Events\<close>

text \<open>
  \<open>MassingDataLoaded q scenarios\<close> is the arrival of a payload whose scenario list is
  \<open>scenarios\<close> on a page whose URL carries the \<^verbatim>\<open>scenario\<close> parameter \<open>q\<close>; of the state
  cells modelled here it touches only what the preselection effect writes.
\<close>

datatype ui_event =
    ScenarioSelect nat
  | SetShowEnvelope bool
  | SetShowLotBoundary bool
  | SetShowSetbacks bool
  | SetShowFloorLabels bool
  | CompareClick
  | ComparisonSelect nat
  | FloorPointer Floor pointer_event
  | MassingDataLoaded "string option" "Scenario list option"

definition App_dispatch :: "AppState \<Rightarrow> ui_event \<Rightarrow> AppState" where
  "App_dispatch s ev =
     (case ev of
        ScenarioSelect n \<Rightarrow> s\<lparr>activeScenario := n, selectedFloor := None, hoveredFloor := None\<rparr>
      | SetShowEnvelope b \<Rightarrow> s\<lparr>showEnvelope := b\<rparr>
      | SetShowLotBoundary b \<Rightarrow> s\<lparr>showLotBoundary := b\<rparr>
      | SetShowSetbacks b \<Rightarrow> s\<lparr>showSetbacks := b\<rparr>
      | SetShowFloorLabels b \<Rightarrow> s\<lparr>showFloorLabels := b\<rparr>
      | CompareClick \<Rightarrow> s\<lparr>comparisonMode := \<not> comparisonMode s\<rparr>
      | ComparisonSelect n \<Rightarrow> s\<lparr>comparisonScenario := n\<rparr>
      | FloorPointer flr pe \<Rightarrow>
          (let (onFloorClick, onFloorHover) =
                 (if comparisonMode s then ComparisonView_callbacks else MassingScene_callbacks)
           in FloorMesh_pointer (BuildingMesh_onClick onFloorClick flr)
                (BuildingMesh_onHover onFloorHover flr) pe s)
      | MassingDataLoaded scenarioName scenarios \<Rightarrow> preselect_effect scenarioName scenarios s)"

text \<open>The pair of scenarios the comparison view draws in a given state.\<close>

definition App_compared :: "Scenario list \<Rightarrow> AppState \<Rightarrow> Scenario option \<times> Scenario option" where
  "App_compared scenarios s =
     (ComparisonView_scA scenarios (activeScenario s),
      ComparisonView_scB scenarios (comparisonScenario s))"

section \<open>Example inputs\<close>

text \<open>
  The lot and the envelope of the viewer's built-in demo payload (\<^verbatim>\<open>getDemoData\<close>),
  the one-floor scenario of the specification's end-to-end example, and the payload
  in which every optional number is missing.
\<close>

definition demo_lot :: Lot where
  "demo_lot = \<lparr> polygon = Some [(0, 0), (50, 0), (50, 100), (0, 100)],
                frontage_ft = Some 50, depth_ft = Some 100 \<rparr>"

definition demo_envelope :: Envelope where
  "demo_envelope = \<lparr> max_height_ft = Some 95, base_height_max_ft = Some 65,
                     setback_line = Some [(10, 0), (10, 70)], sky_exposure_plane = None \<rparr>"

definition absent_lot :: Lot where
  "absent_lot = \<lparr> polygon = None, frontage_ft = None, depth_ft = None \<rparr>"

definition absent_sky :: SkyExposure where
  "absent_sky = \<lparr> start_height = None, slope = None \<rparr>"

definition absent_envelope :: Envelope where
  "absent_envelope = \<lparr> max_height_ft = None, base_height_max_ft = None,
                       setback_line = None, sky_exposure_plane = Some absent_sky \<rparr>"

definition ground_floor :: Floor where
  "ground_floor = \<lparr> floor_num = 1, use = ''commercial'', elevation_ft = 0, height_ft = 15,
                    footprint = Some [(0, 0), (50, 0), (50, 100), (0, 100)] \<rparr>"

definition second_floor :: Floor where
  "second_floor = \<lparr> floor_num = 2, use = ''residential'', elevation_ft = 15, height_ft = 10,
                    footprint = Some [(0, 0), (50, 0), (50, 70), (0, 70)] \<rparr>"

definition one_floor_scenario :: Scenario where
  "one_floor_scenario = \<lparr> name = ''One floor'', floors = Some [ground_floor],
                          bulkhead = None, zoning_envelope = None \<rparr>"

definition two_floor_scenario :: Scenario where
  "two_floor_scenario = \<lparr> name = ''Two floors'', floors = Some [ground_floor, second_floor],
                          bulkhead = None, zoning_envelope = Some demo_envelope \<rparr>"

text \<open>
  A session on a page opened with \<^verbatim>\<open>?scenario=two\<close>: the user points at the ground floor
  and clicks it, then the parent window posts a payload with two scenarios.
\<close>

definition reload_session :: "ui_event list" where
  "reload_session =
     [FloorPointer ground_floor PointerEnter,
      FloorPointer ground_floor Click,
      MassingDataLoaded (Some ''two'') (Some [one_floor_scenario, two_floor_scenario])]"

section \<open>Properties of the envelope projector\<close>

lemma num_or_absent: "x = None \<or> x = Some 0 \<Longrightarrow> num_or x dflt = dflt"
  by (auto simp: num_or_def)

lemma num_or_present: "v \<noteq> 0 \<Longrightarrow> num_or (Some v) dflt = v"
  by (simp add: num_or_def)

lemma SkyExposurePlane_cong:
  assumes "num_or (frontage_ft l) 50 = num_or (frontage_ft l') 50"
      and "num_or (depth_ft l) 100 = num_or (depth_ft l') 100"
      and "num_or (start_height s) 60 = num_or (start_height s') 60"
      and "num_or (slope s) 2.7 = num_or (slope s') 2.7"
  shows "SkyExposurePlane s l = SkyExposurePlane s' l'"
  using assms by (simp add: SkyExposurePlane_def)

lemma ZoningEnvelope_cong:
  assumes "num_or (frontage_ft l) 50 = num_or (frontage_ft l') 50"
      and "num_or (depth_ft l) 100 = num_or (depth_ft l') 100"
      and "num_or (max_height_ft e) 100 = num_or (max_height_ft e') 100"
      and "num_or (base_height_max_ft e) 60 = num_or (base_height_max_ft e') 60"
      and "setback_line e = setback_line e'"
      and "sky_exposure_plane e = sky_exposure_plane e'"
  shows "ZoningEnvelope e l = ZoningEnvelope e' l'"
proof -
  have "SkyExposurePlane s l = SkyExposurePlane s l'" for s
    using assms(1,2) by (rule SkyExposurePlane_cong) simp_all
  then show ?thesis
    using assms by (simp add: ZoningEnvelope_def split: option.splits)
qed

text \<open>
  Claim C1, as amended. The base-height plane and its border are drawn exactly when
  \<open>0 < baseH < maxH\<close> for the \<^emph>\<open>effective\<close> heights: \<open>baseH\<close> is \<open>base_height_max_ft\<close>
  when that field is present and non-zero and 60 otherwise, \<open>maxH\<close> is \<open>max_height_ft\<close>
  when present and non-zero and 100 otherwise. When drawn, the plane and every point
  of the border sit at elevation \<open>baseH\<close>.
\<close>

theorem ZoningEnvelope_base_overlay_effective:
  "(let baseH = (case base_height_max_ft env of None \<Rightarrow> 60 | Some b \<Rightarrow> if b = 0 then 60 else b);
        maxH = (case max_height_ft env of None \<Rightarrow> 100 | Some m \<Rightarrow> if m = 0 then 100 else m)
    in (base_height_overlay (ZoningEnvelope env lot) \<noteq> None \<longleftrightarrow> 0 < baseH \<and> baseH < maxH) \<and>
       (\<forall>p l. base_height_overlay (ZoningEnvelope env lot) = Some (p, l) \<longrightarrow>
          fst (snd (plane_pos p)) = baseH \<and> (\<forall>q \<in> set (line_points l). fst (snd q) = baseH)))"
  by (auto simp: ZoningEnvelope_def num_or_def Let_def split: option.splits)

text \<open>The amended claim C1 at the demo envelope (base 65, max 95) and at base = max = 95.\<close>

theorem ZoningEnvelope_base_overlay_effective_witness:
  "base_height_overlay (ZoningEnvelope demo_envelope demo_lot) \<noteq> None \<and>
   base_height_overlay (ZoningEnvelope (demo_envelope\<lparr>base_height_max_ft := Some 95\<rparr>) demo_lot) = None"
  using ZoningEnvelope_base_overlay_effective [of demo_envelope demo_lot]
        ZoningEnvelope_base_overlay_effective [of "demo_envelope\<lparr>base_height_max_ft := Some 95\<rparr>" demo_lot]
  by (simp add: demo_envelope_def Let_def del: not_None_eq)

text \<open>
  Claim C1 as stated fails: the demo envelope with \<open>base_height_max_ft\<close> removed still
  gets a base-height plane and border, at the default elevation 60.
\<close>

theorem ZoningEnvelope_absent_base_height_counterexample:
  "base_height_max_ft (demo_envelope\<lparr>base_height_max_ft := None\<rparr>) = None \<and>
   base_height_overlay (ZoningEnvelope (demo_envelope\<lparr>base_height_max_ft := None\<rparr>) demo_lot) =
     Some (PlaneMesh 54 104 (25, 60, 50) ''#6BBF6B'' 0.06,
           Line [(0, 60, 0), (50, 60, 0), (50, 60, 100), (0, 60, 100), (0, 60, 0)] ''#6BBF6B'' 1 True)"
  by (simp add: ZoningEnvelope_def demo_envelope_def demo_lot_def num_or_def)

text \<open>
  Claim C2, as amended. For an envelope with a setback line of at least two points
  and no \<open>base_height_max_ft\<close>, the projector draws the setback line at grade
  (elevation 0.2), draws it a second time at the default base height 60 together with
  the vertical connector at its first vertex, draws the max-height plane and the four
  vertical corner edges, and draws the base-height plane exactly when the effective
  max height exceeds 60.
\<close>

theorem ZoningEnvelope_setback_without_base_height:
  assumes "setback_line env = Some sl" and "2 \<le> length sl" and "base_height_max_ft env = None"
  shows "(let w = num_or (frontage_ft lot) 50;
              d = num_or (depth_ft lot) 100;
              maxH = num_or (max_height_ft env) 100;
              g = ZoningEnvelope env lot
          in setback_lines g =
               Some (Line (map (\<lambda>(x, z). (x, 0.2, z)) sl) ''#e74c3c'' 1.5 True,
                     Line (map (\<lambda>(x, z). (x, 60, z)) sl) ''#e74c3c'' 1.5 True,
                     Line [(fst (hd sl), 0.2, snd (hd sl)), (fst (hd sl), 60, snd (hd sl))]
                       ''#e74c3c'' 0.5 False) \<and>
             max_height_plane g = PlaneMesh (w + 4) (d + 4) (w / 2, maxH, d / 2) ''#4A90D9'' 0.08 \<and>
             map line_points (vertical_edges g) =
               [[(0, 0, 0), (0, maxH, 0)], [(w, 0, 0), (w, maxH, 0)],
                [(w, 0, d), (w, maxH, d)], [(0, 0, d), (0, maxH, d)]] \<and>
             (base_height_overlay g \<noteq> None \<longleftrightarrow> 60 < maxH))"
proof -
  from assms(2) have "sl ! 0 = hd sl" by (cases sl) auto
  with assms show ?thesis
    by (simp add: ZoningEnvelope_def Let_def num_or_def)
qed

text \<open>The amended claim C2 at an envelope of max height 50 with the demo setback line.\<close>

theorem ZoningEnvelope_setback_without_base_height_witness:
  "setback_lines (ZoningEnvelope (demo_envelope\<lparr>base_height_max_ft := None, max_height_ft := Some 50\<rparr>) demo_lot) =
     Some (Line [(10, 0.2, 0), (10, 0.2, 70)] ''#e74c3c'' 1.5 True,
           Line [(10, 60, 0), (10, 60, 70)] ''#e74c3c'' 1.5 True,
           Line [(10, 0.2, 0), (10, 60, 0)] ''#e74c3c'' 0.5 False) \<and>
   base_height_overlay (ZoningEnvelope (demo_envelope\<lparr>base_height_max_ft := None, max_height_ft := Some 50\<rparr>) demo_lot) = None"
proof -
  let ?env = "demo_envelope\<lparr>base_height_max_ft := None, max_height_ft := Some 50\<rparr>"
  have sl: "setback_line ?env = Some [(10, 0), (10, 70)]" by (simp add: demo_envelope_def)
  have len: "2 \<le> length [(10, 0), (10, 70 :: rat)]" by simp
  have base: "base_height_max_ft ?env = None" by simp
  from ZoningEnvelope_setback_without_base_height [OF sl len base, of demo_lot]
  show ?thesis by (simp add: Let_def num_or_def del: not_None_eq)
qed

text \<open>
  Claim C2 as stated fails: for the demo envelope without \<open>base_height_max_ft\<close> the group
  contains a setback line at elevation 60 and a base-height plane.
\<close>

theorem ZoningEnvelope_setback_at_default_base_counterexample:
  "base_height_max_ft (demo_envelope\<lparr>base_height_max_ft := None\<rparr>) = None \<and>
   setback_line (demo_envelope\<lparr>base_height_max_ft := None\<rparr>) = Some [(10, 0), (10, 70)] \<and>
   setback_lines (ZoningEnvelope (demo_envelope\<lparr>base_height_max_ft := None\<rparr>) demo_lot) =
     Some (Line [(10, 0.2, 0), (10, 0.2, 70)] ''#e74c3c'' 1.5 True,
           Line [(10, 60, 0), (10, 60, 70)] ''#e74c3c'' 1.5 True,
           Line [(10, 0.2, 0), (10, 60, 0)] ''#e74c3c'' 0.5 False) \<and>
   base_height_overlay (ZoningEnvelope (demo_envelope\<lparr>base_height_max_ft := None\<rparr>) demo_lot) \<noteq> None"
  by (simp add: ZoningEnvelope_def demo_envelope_def demo_lot_def num_or_def)

text \<open>
  Claim C4, as amended. The quad's front edge runs from \<open>(0, h, 0)\<close> to \<open>(w, h, 0)\<close> and
  its far edge lies at \<open>z = d\<close> with height \<open>min (h + d * k) 300\<close>, where \<open>h\<close>, \<open>k\<close>, \<open>d\<close>
  and \<open>w\<close> are the \<^emph>\<open>effective\<close> start height, slope, lot depth and frontage: the given
  value when it is present and non-zero, and 60, 2.7, 100 and 50 otherwise. In
  particular the given values themselves are used when all four are present and
  non-zero, and for frontage 50, depth 100, start height 60 and slope 2.7 the far
  edge is at 300.
\<close>

theorem SkyExposurePlane_quad_effective:
  "(let w = (case frontage_ft lot of None \<Rightarrow> 50 | Some v \<Rightarrow> if v = 0 then 50 else v);
        d = (case depth_ft lot of None \<Rightarrow> 100 | Some v \<Rightarrow> if v = 0 then 100 else v);
        h = (case start_height sep of None \<Rightarrow> 60 | Some v \<Rightarrow> if v = 0 then 60 else v);
        k = (case slope sep of None \<Rightarrow> 2.7 | Some v \<Rightarrow> if v = 0 then 2.7 else v)
    in quad_vertices (SkyExposurePlane sep lot) =
         [(0, h, 0), (w, h, 0), (w, min (h + d * k) 300, d), (0, min (h + d * k) 300, d)]) \<and>
   (frontage_ft lot = Some w' \<and> w' \<noteq> 0 \<and> depth_ft lot = Some d' \<and> d' \<noteq> 0 \<and>
    start_height sep = Some h' \<and> h' \<noteq> 0 \<and> slope sep = Some k' \<and> k' \<noteq> 0 \<longrightarrow>
      quad_vertices (SkyExposurePlane sep lot) =
        [(0, h', 0), (w', h', 0), (w', min (h' + d' * k') 300, d'), (0, min (h' + d' * k') 300, d')]) \<and>
   quad_vertices (SkyExposurePlane \<lparr> start_height = Some 60, slope = Some 2.7 \<rparr>
                    \<lparr> polygon = None, frontage_ft = Some 50, depth_ft = Some 100 \<rparr>) =
     [(0, 60, 0), (50, 60, 0), (50, 300, 100), (0, 300, 100)]"
  by (simp add: SkyExposurePlane_def num_or_def Let_def)

text \<open>
  The amended claim C4 on the demo lot: start height 85 with slope 1 (all given, the
  cap does not engage) and start height 10 with slope 0 (the default slope applies).
\<close>

theorem SkyExposurePlane_quad_effective_witness:
  "quad_vertices (SkyExposurePlane \<lparr> start_height = Some 85, slope = Some 1 \<rparr> demo_lot) =
     [(0, 85, 0), (50, 85, 0), (50, 185, 100), (0, 185, 100)] \<and>
   quad_vertices (SkyExposurePlane \<lparr> start_height = Some 10, slope = Some 0 \<rparr> demo_lot) =
     [(0, 10, 0), (50, 10, 0), (50, 280, 100), (0, 280, 100)]"
  using SkyExposurePlane_quad_effective
          [of demo_lot "\<lparr> start_height = Some 85, slope = Some 1 \<rparr>" 50 100 85 1]
        SkyExposurePlane_quad_effective
          [of demo_lot "\<lparr> start_height = Some 10, slope = Some 0 \<rparr>" 50 100 10 1]
  by (simp add: demo_lot_def Let_def)

text \<open>
  Claim C4 as stated fails at zero. With start height 0 the front edge is at 60, not
  at 0; with start height 10 and slope 0 the far edge is at 280, while the claim's
  \<open>min (start_height + depth * slope) 300\<close> is 10.
\<close>

theorem SkyExposurePlane_zero_field_counterexample:
  "quad_vertices (SkyExposurePlane \<lparr> start_height = Some 0, slope = Some 2.7 \<rparr> demo_lot) =
     [(0, 60, 0), (50, 60, 0), (50, 300, 100), (0, 300, 100)] \<and>
   quad_vertices (SkyExposurePlane \<lparr> start_height = Some 10, slope = Some 0 \<rparr> demo_lot) =
     [(0, 10, 0), (50, 10, 0), (50, 280, 100), (0, 280, 100)] \<and>
   min (10 + 100 * 0) 300 \<noteq> (280 :: rat)"
  by (simp add: SkyExposurePlane_def demo_lot_def num_or_def)

text \<open>
  Claim C10. A missing or zero frontage, depth, max height, base height, start height
  or slope is replaced by 50, 100, 100, 60, 60 and 2.7 respectively: the projector's
  output is the one it gives when the default is supplied explicitly. With every such
  field missing, the max-height plane, the base-height overlay and the sky exposure
  plane are all drawn, with the default dimensions.
\<close>

theorem envelope_defaults:
  "((frontage_ft lot = None \<or> frontage_ft lot = Some 0) \<longrightarrow>
      ZoningEnvelope env lot = ZoningEnvelope env (lot\<lparr>frontage_ft := Some 50\<rparr>) \<and>
      SkyExposurePlane sep lot = SkyExposurePlane sep (lot\<lparr>frontage_ft := Some 50\<rparr>)) \<and>
   ((depth_ft lot = None \<or> depth_ft lot = Some 0) \<longrightarrow>
      ZoningEnvelope env lot = ZoningEnvelope env (lot\<lparr>depth_ft := Some 100\<rparr>) \<and>
      SkyExposurePlane sep lot = SkyExposurePlane sep (lot\<lparr>depth_ft := Some 100\<rparr>)) \<and>
   ((max_height_ft env = None \<or> max_height_ft env = Some 0) \<longrightarrow>
      ZoningEnvelope env lot = ZoningEnvelope (env\<lparr>max_height_ft := Some 100\<rparr>) lot) \<and>
   ((base_height_max_ft env = None \<or> base_height_max_ft env = Some 0) \<longrightarrow>
      ZoningEnvelope env lot = ZoningEnvelope (env\<lparr>base_height_max_ft := Some 60\<rparr>) lot) \<and>
   ((start_height sep = None \<or> start_height sep = Some 0) \<longrightarrow>
      SkyExposurePlane sep lot = SkyExposurePlane (sep\<lparr>start_height := Some 60\<rparr>) lot) \<and>
   ((slope sep = None \<or> slope sep = Some 0) \<longrightarrow>
      SkyExposurePlane sep lot = SkyExposurePlane (sep\<lparr>slope := Some 2.7\<rparr>) lot) \<and>
   max_height_plane (ZoningEnvelope absent_envelope absent_lot) =
     PlaneMesh 54 104 (25, 100, 50) ''#4A90D9'' 0.08 \<and>
   base_height_overlay (ZoningEnvelope absent_envelope absent_lot) =
     Some (PlaneMesh 54 104 (25, 60, 50) ''#6BBF6B'' 0.06,
           Line [(0, 60, 0), (50, 60, 0), (50, 60, 100), (0, 60, 100), (0, 60, 0)] ''#6BBF6B'' 1 True) \<and>
   sky_plane (ZoningEnvelope absent_envelope absent_lot) =
     Some (QuadMesh [(0, 60, 0), (50, 60, 0), (50, 300, 100), (0, 300, 100)]
             [0, 1, 2, 0, 2, 3] ''#f39c12'' 0.1)"
proof -
  have subst: "(frontage_ft lot = None \<or> frontage_ft lot = Some 0 \<longrightarrow>
      ZoningEnvelope env lot = ZoningEnvelope env (lot\<lparr>frontage_ft := Some 50\<rparr>) \<and>
      SkyExposurePlane sep lot = SkyExposurePlane sep (lot\<lparr>frontage_ft := Some 50\<rparr>)) \<and>
   (depth_ft lot = None \<or> depth_ft lot = Some 0 \<longrightarrow>
      ZoningEnvelope env lot = ZoningEnvelope env (lot\<lparr>depth_ft := Some 100\<rparr>) \<and>
      SkyExposurePlane sep lot = SkyExposurePlane sep (lot\<lparr>depth_ft := Some 100\<rparr>)) \<and>
   (max_height_ft env = None \<or> max_height_ft env = Some 0 \<longrightarrow>
      ZoningEnvelope env lot = ZoningEnvelope (env\<lparr>max_height_ft := Some 100\<rparr>) lot) \<and>
   (base_height_max_ft env = None \<or> base_height_max_ft env = Some 0 \<longrightarrow>
      ZoningEnvelope env lot = ZoningEnvelope (env\<lparr>base_height_max_ft := Some 60\<rparr>) lot) \<and>
   (start_height sep = None \<or> start_height sep = Some 0 \<longrightarrow>
      SkyExposurePlane sep lot = SkyExposurePlane (sep\<lparr>start_height := Some 60\<rparr>) lot) \<and>
   (slope sep = None \<or> slope sep = Some 0 \<longrightarrow>
      SkyExposurePlane sep lot = SkyExposurePlane (sep\<lparr>slope := Some 2.7\<rparr>) lot)"
    by (intro conjI impI ZoningEnvelope_cong SkyExposurePlane_cong) (auto simp: num_or_def)
  have scene: "max_height_plane (ZoningEnvelope absent_envelope absent_lot) =
       PlaneMesh 54 104 (25, 100, 50) ''#4A90D9'' 0.08 \<and>
     base_height_overlay (ZoningEnvelope absent_envelope absent_lot) =
       Some (PlaneMesh 54 104 (25, 60, 50) ''#6BBF6B'' 0.06,
             Line [(0, 60, 0), (50, 60, 0), (50, 60, 100), (0, 60, 100), (0, 60, 0)] ''#6BBF6B'' 1 True) \<and>
     sky_plane (ZoningEnvelope absent_envelope absent_lot) =
       Some (QuadMesh [(0, 60, 0), (50, 60, 0), (50, 300, 100), (0, 300, 100)]
               [0, 1, 2, 0, 2, 3] ''#f39c12'' 0.1)"
    by (simp add: ZoningEnvelope_def SkyExposurePlane_def absent_envelope_def absent_lot_def
          absent_sky_def num_or_def)
  from subst scene show ?thesis by blast
qed

text \<open>Claim C10 where every field is missing: each default may be written in explicitly.\<close>

theorem envelope_defaults_witness:
  "ZoningEnvelope absent_envelope absent_lot =
     ZoningEnvelope absent_envelope (absent_lot\<lparr>frontage_ft := Some 50\<rparr>) \<and>
   ZoningEnvelope absent_envelope absent_lot =
     ZoningEnvelope absent_envelope (absent_lot\<lparr>depth_ft := Some 100\<rparr>) \<and>
   ZoningEnvelope absent_envelope absent_lot =
     ZoningEnvelope (absent_envelope\<lparr>max_height_ft := Some 100\<rparr>) absent_lot \<and>
   ZoningEnvelope absent_envelope absent_lot =
     ZoningEnvelope (absent_envelope\<lparr>base_height_max_ft := Some 60\<rparr>) absent_lot \<and>
   SkyExposurePlane absent_sky absent_lot =
     SkyExposurePlane (absent_sky\<lparr>start_height := Some 60\<rparr>) absent_lot \<and>
   SkyExposurePlane absent_sky absent_lot =
     SkyExposurePlane (absent_sky\<lparr>slope := Some 2.7\<rparr>) absent_lot"
proof -
  have "frontage_ft absent_lot = None" "depth_ft absent_lot = None"
       "max_height_ft absent_envelope = None" "base_height_max_ft absent_envelope = None"
       "start_height absent_sky = None" "slope absent_sky = None"
    by (simp_all add: absent_lot_def absent_envelope_def absent_sky_def)
  with envelope_defaults [of absent_lot absent_envelope absent_sky]
  show ?thesis by blast
qed

section \<open>Properties of the massing builder\<close>

text \<open>
  Claim C3. A floor whose height exceeds the gap of 0.3 ft and whose footprint is a
  polygon (at least three points, as the data model requires of a floor) yields a
  solid extruded by \<open>height_ft - FLOOR_GAP\<close> whose base is at
  \<open>elevation_ft + FLOOR_GAP / 2\<close>. The scenario made of the single floor of height 15
  at elevation 0 yields exactly one solid, occupying the vertical interval from 0.15
  to 14.85.
\<close>

theorem FloorMesh_extrusion:
  "(FLOOR_GAP < height_ft flr \<and> footprint flr = Some poly \<and> 3 \<le> length poly \<longrightarrow>
      map_option solid_shape (FloorMesh flr) = Some poly \<and>
      map_option solid_depth (FloorMesh flr) = Some (height_ft flr - FLOOR_GAP) \<and>
      map_option solid_position (FloorMesh flr) = Some (0, elevation_ft flr + FLOOR_GAP / 2, 0) \<and>
      map_option vertical_extent (FloorMesh flr) =
        Some (elevation_ft flr + FLOOR_GAP / 2,
              elevation_ft flr + FLOOR_GAP / 2 + (height_ft flr - FLOOR_GAP))) \<and>
   FLOOR_GAP = 0.3 \<and>
   map_option (map (map_option vertical_extent) \<circ> floor_children)
     (BuildingMesh (Some one_floor_scenario)) = Some [Some (0.15, 14.85)]"
  by (auto simp: FloorMesh_def vertical_extent_def BuildingMesh_def one_floor_scenario_def
        ground_floor_def FLOOR_GAP_def)

text \<open>Claim C3 at the second floor of the example building (height 10 at elevation 15).\<close>

theorem FloorMesh_extrusion_witness:
  "map_option solid_depth (FloorMesh second_floor) = Some 9.7 \<and>
   map_option vertical_extent (FloorMesh second_floor) = Some (15.15, 24.85)"
  using FloorMesh_extrusion [of second_floor "[(0, 0), (50, 0), (50, 70), (0, 70)]"]
  by (simp add: second_floor_def FLOOR_GAP_def)

text \<open>
  Claim C7, as amended. For a polygon with fewer than three points the floor builder
  and the bulkhead builder return nothing. The lot builder does not skip: it draws
  the fill and the boundary of the rectangle spanned by the lot's frontage and depth
  (50 and 100 when those are missing or zero). None of the three can fail.
\<close>

theorem degenerate_polygon_handling:
  assumes "length poly < 3"
  shows "(footprint flr = Some poly \<longrightarrow> FloorMesh flr = None) \<and>
         (bh_footprint bh = Some poly \<longrightarrow> BulkheadMesh bh = None) \<and>
         (polygon lot = Some poly \<longrightarrow>
            (let w = num_or (frontage_ft lot) 50; d = num_or (depth_ft lot) 100
             in lot_fill (LotPlane lot) = [(0, 0), (w, 0), (w, d), (0, d)] \<and>
                line_points (lot_boundary_line (LotPlane lot)) =
                  [(0, 0.15, 0), (w, 0.15, 0), (w, 0.15, d), (0, 0.15, d), (0, 0.15, 0)]))"
  using assms
  by (simp add: FloorMesh_def BulkheadMesh_def LotPlane_def lotFillGeo_def lotBoundary_def Let_def)

text \<open>The amended claim C7 at a two-point polygon.\<close>

theorem degenerate_polygon_handling_witness:
  "FloorMesh (ground_floor\<lparr>footprint := Some [(0, 0), (50, 0)]\<rparr>) = None \<and>
   BulkheadMesh \<lparr> bh_footprint = Some [(0, 0), (50, 0)], bh_height_ft = 15, bh_elevation_ft = 85 \<rparr> = None \<and>
   lot_fill (LotPlane (absent_lot\<lparr>polygon := Some [(0, 0), (50, 0)]\<rparr>)) =
     [(0, 0), (50, 0), (50, 100), (0, 100)]"
  using degenerate_polygon_handling [of "[(0, 0), (50, 0)]"
      "ground_floor\<lparr>footprint := Some [(0, 0), (50, 0)]\<rparr>"
      "\<lparr> bh_footprint = Some [(0, 0), (50, 0)], bh_height_ft = 15, bh_elevation_ft = 85 \<rparr>"
      "absent_lot\<lparr>polygon := Some [(0, 0), (50, 0)]\<rparr>"]
  by (simp add: absent_lot_def num_or_def)

text \<open>
  Claim C7 as stated fails for the lot: with a two-point polygon the lot fill and the
  lot boundary are still drawn, as the 50 by 100 rectangle.
\<close>

theorem LotPlane_rectangle_fallback_counterexample:
  "length [(0, 0), (50, 0 :: rat)] < 3 \<and>
   lot_fill (LotPlane (demo_lot\<lparr>polygon := Some [(0, 0), (50, 0)]\<rparr>)) =
     [(0, 0), (50, 0), (50, 100), (0, 100)] \<and>
   line_points (lot_boundary_line (LotPlane (demo_lot\<lparr>polygon := Some [(0, 0), (50, 0)]\<rparr>))) =
     [(0, 0.15, 0), (50, 0.15, 0), (50, 0.15, 100), (0, 0.15, 100), (0, 0.15, 0)]"
  by (simp add: LotPlane_def lotFillGeo_def lotBoundary_def demo_lot_def num_or_def)

subsection \<open>Floor colours\<close>

lemma baseColor_enumerated:
  "baseColor (flr\<lparr>use := ''commercial''\<rparr>) = JsString ''#4A90D9''"
  "baseColor (flr\<lparr>use := ''residential''\<rparr>) = JsString ''#F5E6CC''"
  "baseColor (flr\<lparr>use := ''community_facility''\<rparr>) = JsString ''#6BBF6B''"
  "baseColor (flr\<lparr>use := ''parking''\<rparr>) = JsString ''#999999''"
  "baseColor (flr\<lparr>use := ''mechanical''\<rparr>) = JsString ''#777777''"
  "baseColor (flr\<lparr>use := ''cellar''\<rparr>) = JsString ''#777777''"
  "baseColor (flr\<lparr>use := ''core''\<rparr>) = JsString ''#555555''"
  by (simp_all add: baseColor_def js_get_def js_or_def js_truthy_def USE_COLORS_def)

lemma baseColor_fallback:
  assumes "use flr \<notin> fst ` set USE_COLORS" and "use flr \<notin> fst ` set Object_prototype"
  shows "baseColor flr = JsString ''#cccccc''"
proof -
  from assms have "map_of USE_COLORS (use flr) = None" "map_of Object_prototype (use flr) = None"
    by (simp_all add: map_of_eq_None_iff)
  then show ?thesis
    by (simp add: baseColor_def js_get_def js_or_def js_truthy_def)
qed

text \<open>
  Claim C9 does not hold of the code. The seven enumerated uses get their palette
  entries (\<open>baseColor_enumerated\<close>) and a value that names no property at all gets
  the grey fallback (\<open>baseColor_fallback\<close>), but a value that names a member inherited
  from \<^verbatim>\<open>Object.prototype\<close> is outside the enumeration and does not fall back: for the
  use \<^verbatim>\<open>"constructor"\<close> the colour handed to the material is the built-in \<^verbatim>\<open>Object\<close>
  function, not \<^verbatim>\<open>#cccccc\<close>.
\<close>

theorem baseColor_inherited_property:
  "use (ground_floor\<lparr>use := ''constructor''\<rparr>) \<notin> fst ` set USE_COLORS \<and>
   baseColor (ground_floor\<lparr>use := ''constructor''\<rparr>) = JsBuiltin ''Object'' \<and>
   map_option solid_color (FloorMesh (ground_floor\<lparr>use := ''constructor''\<rparr>)) \<noteq>
     Some (JsString ''#cccccc'')"
  by (simp add: baseColor_def js_get_def js_or_def js_truthy_def USE_COLORS_def Object_prototype_def
        FloorMesh_def ground_floor_def)

section \<open>Properties of the interaction state\<close>

lemma comparison_pointer_noop:
  "comparisonMode s \<Longrightarrow> App_dispatch s (FloorPointer flr pe) = s"
  by (cases pe)
     (simp_all add: App_dispatch_def ComparisonView_callbacks_def FloorMesh_pointer_def
        BuildingMesh_onClick_def BuildingMesh_onHover_def)

lemma comparison_pointers_noop:
  "comparisonMode s \<Longrightarrow> foldl App_dispatch s (map (\<lambda>(flr, pe). FloorPointer flr pe) evs) = s"
proof (induction evs)
  case Nil
  show ?case by simp
next
  case (Cons ev evs)
  obtain flr pe where ev: "ev = (flr, pe)" by (cases ev)
  from Cons.prems have "App_dispatch s (FloorPointer flr pe) = s"
    by (rule comparison_pointer_noop)
  with Cons show ?case by (simp add: ev)
qed

text \<open>In the single view the same pointer events do reach the state.\<close>

lemma single_view_click_selects:
  "\<not> comparisonMode s \<Longrightarrow> selectedFloor (App_dispatch s (FloorPointer flr Click)) = Some flr"
  by (simp add: App_dispatch_def MassingScene_callbacks_def FloorMesh_pointer_def
        BuildingMesh_onClick_def setSelectedFloor_def)

lemma single_view_hover:
  "\<not> comparisonMode s \<Longrightarrow> hoveredFloor (App_dispatch s (FloorPointer flr PointerEnter)) = Some flr"
  "\<not> comparisonMode s \<Longrightarrow> hoveredFloor (App_dispatch s (FloorPointer flr PointerLeave)) = None"
  by (simp_all add: App_dispatch_def MassingScene_callbacks_def FloorMesh_pointer_def
        BuildingMesh_onHover_def setHoveredFloor_def)

text \<open>
  Claim C5, as amended. The comparison view draws, as its second scenario, the one at
  the comparison-target index whenever that index lies inside the scenario list and
  differs from the active index, and falls back to scenario 0 when the target index
  lies outside the list. The "Compare with" drop-down offers exactly the indices of
  the list other than the active one.
\<close>

theorem ComparisonView_scB_fallback:
  "(b < length scs \<and> b \<noteq> a \<longrightarrow> ComparisonView_scB scs b = Some (scs ! b)) \<and>
   (length scs \<le> b \<and> scs \<noteq> [] \<longrightarrow> ComparisonView_scB scs b = Some (scs ! 0)) \<and>
   set (comparison_options scs a) = {i. i < length scs \<and> i \<noteq> a}"
  by (auto simp: ComparisonView_scB_def js_index_def comparison_options_def)

text \<open>
  The amended claim C5 on a list of two scenarios with scenario 0 active, for the
  target indices 1 and 5.
\<close>

theorem ComparisonView_scB_fallback_witness:
  "ComparisonView_scB [one_floor_scenario, two_floor_scenario] 1 = Some two_floor_scenario \<and>
   ComparisonView_scB [one_floor_scenario, two_floor_scenario] 5 = Some one_floor_scenario \<and>
   set (comparison_options [one_floor_scenario, two_floor_scenario] 0) = {1}"
proof -
  let ?scs = "[one_floor_scenario, two_floor_scenario]"
  have inside: "(1::nat) < length ?scs \<and> (1::nat) \<noteq> 0" by simp
  have outside: "length ?scs \<le> 5 \<and> ?scs \<noteq> []" by simp
  from ComparisonView_scB_fallback [of 1 ?scs 0] inside
  have at_1: "ComparisonView_scB ?scs 1 = Some (?scs ! 1)" by blast
  from ComparisonView_scB_fallback [of 5 ?scs 0] outside
  have at_5: "ComparisonView_scB ?scs 5 = Some (?scs ! 0)" by blast
  from ComparisonView_scB_fallback [of 1 ?scs 0]
  have opts: "set (comparison_options ?scs 0) = {i. i < length ?scs \<and> i \<noteq> 0}" by blast
  have "{i. i < length ?scs \<and> i \<noteq> 0} = {1::nat}" by auto
  with at_1 at_5 opts show ?thesis by simp
qed

text \<open>
  Claim C5 as stated fails. From the initial state (active 0, comparison target 1),
  choosing scenario 1 in the toolbar makes the two indices equal, and the comparison
  view then draws scenario 1 on both sides: no fall-back to index 0 takes place. With
  a single scenario the fall-back to index 0 itself makes both sides the same.
\<close>

theorem ComparisonView_same_scenario_counterexample:
  "activeScenario (App_dispatch initial_state (ScenarioSelect 1)) =
     comparisonScenario (App_dispatch initial_state (ScenarioSelect 1)) \<and>
   App_compared [one_floor_scenario, two_floor_scenario] (App_dispatch initial_state (ScenarioSelect 1)) =
     (Some two_floor_scenario, Some two_floor_scenario) \<and>
   App_compared [one_floor_scenario] initial_state = (Some one_floor_scenario, Some one_floor_scenario)"
  by (simp add: App_compared_def App_dispatch_def initial_state_def ComparisonView_scA_def
        ComparisonView_scB_def js_index_def)

text \<open>
  Choosing a scenario in the toolbar sets the active index to the chosen one and sets
  both the selected floor and the hovered floor to null, whatever the state was.
\<close>

lemma toolbar_select_clears_floors:
  "selectedFloor (App_dispatch s (ScenarioSelect n)) = None \<and>
   hoveredFloor (App_dispatch s (ScenarioSelect n)) = None \<and>
   activeScenario (App_dispatch s (ScenarioSelect n)) = n"
  by (simp add: App_dispatch_def)

text \<open>The preselection effect writes the active index and nothing else.\<close>

lemma preselect_effect_keeps_floors:
  "selectedFloor (preselect_effect q scenarios s) = selectedFloor s \<and>
   hoveredFloor (preselect_effect q scenarios s) = hoveredFloor s"
  by (simp add: preselect_effect_def split: option.splits)

text \<open>
  Claim C6 does not hold of the code. The toolbar select clears both floor references
  (\<open>toolbar_select_clears_floors\<close>), but the preselection effect is a second operation
  that switches the active scenario and it clears neither. In the session
  \<open>reload_session\<close>, which starts from the initial state, the active index goes from 0
  to 1 while the selected and the hovered floor still refer to the ground floor of
  the scenario shown before.
\<close>

theorem preselect_switch_retains_floors:
  "activeScenario initial_state = 0 \<and>
   activeScenario (foldl App_dispatch initial_state reload_session) = 1 \<and>
   selectedFloor (foldl App_dispatch initial_state reload_session) = Some ground_floor \<and>
   hoveredFloor (foldl App_dispatch initial_state reload_session) = Some ground_floor"
  by (simp add: reload_session_def initial_state_def App_dispatch_def MassingScene_callbacks_def
        FloorMesh_pointer_def BuildingMesh_onClick_def BuildingMesh_onHover_def
        setSelectedFloor_def setHoveredFloor_def preselect_effect_def toLowerCase_def
        lower_char_def one_floor_scenario_def two_floor_scenario_def)

text \<open>
  Claim C8. The click and hover callbacks that the comparison view hands to the floor
  solids of both scenarios leave the state as it is, so in comparison mode no sequence
  of clicks, pointer-enters and pointer-leaves on floor solids changes the selected
  floor or the hovered floor.
\<close>

theorem comparison_mode_pointer_noop:
  "BuildingMesh_onClick (fst ComparisonView_callbacks) flr s = s \<and>
   BuildingMesh_onHover (snd ComparisonView_callbacks) flr hovered s = s \<and>
   (comparisonMode s \<longrightarrow>
      selectedFloor (foldl App_dispatch s (map (\<lambda>(f, pe). FloorPointer f pe) evs)) = selectedFloor s \<and>
      hoveredFloor (foldl App_dispatch s (map (\<lambda>(f, pe). FloorPointer f pe) evs)) = hoveredFloor s)"
  by (simp add: comparison_pointers_noop ComparisonView_callbacks_def BuildingMesh_onClick_def
        BuildingMesh_onHover_def)

text \<open>
  Claim C8 in a comparison-mode state with the ground floor selected: entering,
  clicking and leaving the second floor changes neither floor reference.
\<close>

theorem comparison_mode_pointer_noop_witness:
  "selectedFloor (foldl App_dispatch (initial_state\<lparr>comparisonMode := True, selectedFloor := Some ground_floor\<rparr>)
      [FloorPointer second_floor PointerEnter, FloorPointer second_floor Click,
       FloorPointer second_floor PointerLeave]) = Some ground_floor \<and>
   hoveredFloor (foldl App_dispatch (initial_state\<lparr>comparisonMode := True, selectedFloor := Some ground_floor\<rparr>)
      [FloorPointer second_floor PointerEnter, FloorPointer second_floor Click,
       FloorPointer second_floor PointerLeave]) = None"
proof -
  let ?s = "initial_state\<lparr>comparisonMode := True, selectedFloor := Some ground_floor\<rparr>"
  let ?evs = "[(second_floor, PointerEnter), (second_floor, Click), (second_floor, PointerLeave)]"
  have mode: "comparisonMode ?s" by simp
  have evs: "map (\<lambda>(f, pe). FloorPointer f pe) ?evs =
      [FloorPointer second_floor PointerEnter, FloorPointer second_floor Click,
       FloorPointer second_floor PointerLeave]" by simp
  have sel: "selectedFloor ?s = Some ground_floor" by simp
  have hov: "hoveredFloor ?s = None" by (simp add: initial_state_def)
  from comparison_mode_pointer_noop [of second_floor ?s True ?evs] mode
  show ?thesis unfolding evs sel hov by blast
qed

end
